theory Spec2Isabelle
  imports Main
begin

section \<open>Documents and requests\<close>

text \<open>
  The backend keeps four collections (users, courses, lessons, topics) in a document
  store and answers HTTP requests. A document id (\<open>_id\<close>, an ObjectId) is a natural
  number here. An id that arrives in a request (a path parameter, a body field) is a
  string that the document layer first casts to an ObjectId: \<open>Malformed\<close> stands for a
  string the cast rejects, \<open>Oid n\<close> for one it accepts.
\<close>

type_synonym objid = nat

datatype idparam = Malformed | Oid objid

text \<open>What the document layer and the handlers throw; a handler's \<open>catch\<close> sends its message.\<close>

datatype exn = ValidationError | CastError | OtherError string

text \<open>
  The user model (\<open>models/User\<close>) is not among the sources. The fields are the ones the
  controllers pass to \<open>new User\<close>; what the schema makes of them on \<open>save\<close> is a
  parameter (\<open>user_save\<close> below).
\<close>

record user =
  uid :: objid
  u_name :: "string option"
  u_email :: "string option"
  u_password :: "string option"
  u_role :: string
  u_profilePhoto :: "string option"
  u_phoneNumber :: "string option"
  u_courses :: "idparam list option"
  u_knowledge :: "string option"

text \<open>\<open>courseSchema\<close>, \<open>lessonSchema\<close>, \<open>topicSchema\<close>. No claim computes with a price.\<close>

record course =
  c_title :: string
  c_description :: string
  c_instructor :: string
  c_price :: int
  c_image :: "string option"

record lesson =
  l_title :: string
  l_description :: string
  l_courseId :: objid
  l_topics :: "objid list"
  l_content :: "string option"

record topic =
  t_title :: string
  t_description :: string
  t_lessonId :: objid
  t_image :: "string option"

text \<open>
  The process state: the four collections, the revoked-token set of
  \<open>utils/tokenBlacklist\<close> (a JavaScript \<open>Set\<close>), the array \<open>const tokenBlacklist = []\<close>
  that the user routes file declares for itself, and the source of fresh ids.
\<close>

record store =
  users :: "user list"
  courses :: "objid \<rightharpoonup> course"
  lessons :: "objid \<rightharpoonup> lesson"
  topics :: "objid \<rightharpoonup> topic"
  tokenBlacklist :: "string set"
  routeBlacklist :: "string list"
  next_id :: objid

text \<open>
  The claims of a session token: \<open>{ id, role }\<close>. A token that verifies was signed
  with the server's secret, and the server signs the \<open>_id\<close> of a stored user only, so
  the subject id of a verified token is a well-formed id.
\<close>

record payload =
  p_id :: objid
  p_role :: string

text \<open>
  The collaborators that are not in the sources, as they answer at the time of one
  request: \<open>jwt.sign(payload, JWT_SECRET, {expiresIn: "1h"})\<close> (with the secret
  configured, it returns a token), \<open>jwt.verify(token, JWT_SECRET)\<close> (\<open>None\<close> when it
  throws: bad signature, malformed token, expiry elapsed), \<open>user.save()\<close> of the missing
  user model (validation, unique index, password hashing) and its \<open>comparePassword\<close>
  method. The store itself is always reachable: a failure of the database connection
  is outside the model.
\<close>

record env =
  jwt_sign :: "payload \<Rightarrow> string"
  jwt_verify :: "string \<Rightarrow> payload option"
  user_save :: "user list \<Rightarrow> user \<Rightarrow> exn + user"
  comparePassword :: "user \<Rightarrow> string option \<Rightarrow> exn + bool"

text \<open>Request bodies, one record per route; an absent field is \<open>None\<close>.\<close>

record signup_body =
  sb_name :: "string option"
  sb_email :: "string option"
  sb_password :: "string option"
  sb_role :: "string option"
  sb_profilePhoto :: "string option"
  sb_phoneNumber :: "string option"
  sb_courses :: "idparam list option"
  sb_knowledge :: "string option"

record login_body =
  lb_email :: "string option"
  lb_password :: "string option"

record lesson_body =
  lsb_title :: "string option"
  lsb_description :: "string option"
  lsb_courseId :: "idparam option"
  lsb_topics :: "idparam list option"
  lsb_content :: "string option"

record topic_body =
  tb_title :: "string option"
  tb_description :: "string option"
  tb_lessonId :: "idparam option"

record 'b request =
  authorization :: "string option"
  params_id :: idparam
  body :: 'b
  file_path :: "string option"
  req_user :: "user option"

text \<open>Response bodies: \<open>{message: ...}\<close>, \<open>{error: ...}\<close>, or a document.\<close>

datatype json =
    Message string
  | MessageOf exn
  | Error string
  | ErrorOf exn
  | UserJson "user option"
  | UsersJson "user list"
  | SignupJson string user string
  | SignupOldJson string user
  | LoginJson string string user
  | CourseJson "course option"
  | LessonJson objid lesson
  | TopicJson objid topic

record response =
  status :: nat
  json_body :: json

text \<open>A middleware either answers or hands the request on (\<open>next()\<close>).\<close>

datatype 'r step = Respond response | Next 'r

definition reply :: "nat \<Rightarrow> json \<Rightarrow> response" where
  "reply code j = \<lparr>status = code, json_body = j\<rparr>"

section \<open>The auth gate\<close>

text \<open>JavaScript's \<open>s.split(' ')\<close>: the pieces between single spaces, empty ones kept.\<close>

fun split_on :: "char \<Rightarrow> string \<Rightarrow> string list" where
  "split_on c [] = [[]]"
| "split_on c (x # xs) =
     (if x = c then [] # split_on c xs
      else (case split_on c xs of
              [] \<Rightarrow> [[x]]
            | w # ws \<Rightarrow> (x # w) # ws))"

text \<open>\<open>xs[1]\<close>: \<open>undefined\<close> when the array is shorter.\<close>

fun second :: "'a list \<Rightarrow> 'a option" where
  "second (_ # y # _) = Some y"
| "second _ = None"

text \<open>
  \<open>authHeader && authHeader.split(' ')[1]\<close>: an absent or empty header is itself the
  (falsy) value; otherwise the second piece of the header.
\<close>

definition header_token :: "string option \<Rightarrow> string option" where
  "header_token authHeader =
     (case authHeader of
        None \<Rightarrow> None
      | Some h \<Rightarrow> if h = [] then Some [] else second (split_on CHR '' '' h))"

text \<open>\<open>!token\<close>: \<open>undefined\<close> and the empty string are falsy.\<close>

definition falsy :: "string option \<Rightarrow> bool" where
  "falsy t = (case t of None \<Rightarrow> True | Some s \<Rightarrow> s = [])"

definition findById :: "user list \<Rightarrow> objid \<Rightarrow> user option" where
  "findById us i = find (\<lambda>u. uid u = i) us"

definition isBlacklisted :: "store \<Rightarrow> string \<Rightarrow> bool" where
  "isBlacklisted s token = (token \<in> tokenBlacklist s)"

definition authenticateToken :: "env \<Rightarrow> store \<Rightarrow> 'b request \<Rightarrow> 'b request step" where
  "authenticateToken e s req =
     (let token = header_token (authorization req) in
      if falsy token then
        Respond (reply 401 (Message ''Access denied. No token provided.''))
      else
        (case token of
           None \<Rightarrow> Respond (reply 401 (Message ''Access denied. No token provided.''))
         | Some tok \<Rightarrow>
             if isBlacklisted s tok then
               Respond (reply 403 (Message ''Token is blacklisted. Please log in again.''))
             else
               (case jwt_verify e tok of
                  None \<Rightarrow> Respond (reply 403 (Message ''Invalid token.''))
                | Some userPayload \<Rightarrow>
                    (case findById (users s) (p_id userPayload) of
                       None \<Rightarrow> Respond (reply 404 (Message ''User not found.''))
                     | Some dbUser \<Rightarrow> Next (req\<lparr>req_user := Some dbUser\<rparr>)))))"

text \<open>
  \<open>authorizeRoles(...roles)\<close>. It runs after \<open>authenticateToken\<close>, so \<open>req.user\<close> is
  set; without a user the read of \<open>req.user.role\<close> throws, which the framework answers
  with status 500.
\<close>

definition authorizeRoles :: "string list \<Rightarrow> 'b request \<Rightarrow> 'b request step" where
  "authorizeRoles roles req =
     (case req_user req of
        None \<Rightarrow> Respond (reply 500 (MessageOf (OtherError ''TypeError'')))
      | Some u \<Rightarrow>
          if u_role u \<notin> set roles then
            Respond (reply 403 (Message ''Access denied. Insufficient permissions.''))
          else Next req)"

text \<open>
  A route is a chain of middleware in front of a handler:
  \<open>router.get(path, authenticateToken, handler)\<close> and
  \<open>router.post(path, authenticateToken, authorizeRoles("admin"), handler)\<close>.
\<close>

definition with_auth ::
  "env \<Rightarrow> (store \<Rightarrow> 'b request \<Rightarrow> store \<times> response) \<Rightarrow> store \<Rightarrow> 'b request \<Rightarrow> store \<times> response"
where
  "with_auth e handler s req =
     (case authenticateToken e s req of
        Respond r \<Rightarrow> (s, r)
      | Next req1 \<Rightarrow> handler s req1)"

definition with_admin ::
  "env \<Rightarrow> (store \<Rightarrow> 'b request \<Rightarrow> store \<times> response) \<Rightarrow> store \<Rightarrow> 'b request \<Rightarrow> store \<times> response"
where
  "with_admin e handler s req =
     (case authenticateToken e s req of
        Respond r \<Rightarrow> (s, r)
      | Next req1 \<Rightarrow>
          (case authorizeRoles [''admin''] req1 of
             Respond r \<Rightarrow> (s, r)
           | Next req2 \<Rightarrow> handler s req2))"

section \<open>The user controller and the user routes\<close>

text \<open>\<open>role || "user"\<close>: an absent or empty role is replaced.\<close>

definition role_or_user :: "string option \<Rightarrow> string" where
  "role_or_user r = (case r of None \<Rightarrow> ''user'' | Some x \<Rightarrow> if x = [] then ''user'' else x)"

definition findOne_email :: "user list \<Rightarrow> string option \<Rightarrow> user option" where
  "findOne_email us em = find (\<lambda>u. u_email u = em) us"

text \<open>
  \<open>signup\<close>, the variant that answers with a token. \<open>new_user\<close> is its
  \<open>new User({...})\<close>; the new document takes the next fresh id; \<open>user.save()\<close> is the
  user model's.
\<close>

definition new_user :: "objid \<Rightarrow> signup_body \<Rightarrow> user" where
  "new_user i b =
     \<lparr>uid = i, u_name = sb_name b, u_email = sb_email b, u_password = sb_password b,
      u_role = role_or_user (sb_role b), u_profilePhoto = sb_profilePhoto b,
      u_phoneNumber = sb_phoneNumber b, u_courses = sb_courses b,
      u_knowledge = sb_knowledge b\<rparr>"

definition signup :: "env \<Rightarrow> store \<Rightarrow> signup_body request \<Rightarrow> store \<times> response" where
  "signup e s req =
     (let b = body req in
      case findOne_email (users s) (sb_email b) of
        Some existingUser \<Rightarrow> (s, reply 400 (Message ''User already exists''))
      | None \<Rightarrow>
          (let user = new_user (next_id s) b
           in case user_save e (users s) user of
                Inl err \<Rightarrow> (s, reply 400 (MessageOf err))
              | Inr newUser \<Rightarrow>
                  (let token = jwt_sign e \<lparr>p_id = uid newUser, p_role = u_role newUser\<rparr>
                   in (s\<lparr>users := users s @ [newUser], next_id := Suc (next_id s)\<rparr>,
                       reply 201 (SignupJson ''User created successfully'' newUser token)))))"

text \<open>
  \<open>signup\<close> of \<open>controllers/userController.js\<close>, the older variant: four body fields,
  and no token in the answer.
\<close>

definition new_user_old :: "objid \<Rightarrow> signup_body \<Rightarrow> user" where
  "new_user_old i b =
     \<lparr>uid = i, u_name = sb_name b, u_email = sb_email b, u_password = sb_password b,
      u_role = role_or_user (sb_role b), u_profilePhoto = None, u_phoneNumber = None,
      u_courses = None, u_knowledge = None\<rparr>"

definition signup_old :: "env \<Rightarrow> store \<Rightarrow> signup_body request \<Rightarrow> store \<times> response" where
  "signup_old e s req =
     (let b = body req in
      case findOne_email (users s) (sb_email b) of
        Some existingUser \<Rightarrow> (s, reply 400 (Message ''User already exists''))
      | None \<Rightarrow>
          (let user = new_user_old (next_id s) b
           in case user_save e (users s) user of
                Inl err \<Rightarrow> (s, reply 400 (MessageOf err))
              | Inr newUser \<Rightarrow>
                  (s\<lparr>users := users s @ [newUser], next_id := Suc (next_id s)\<rparr>,
                   reply 201 (SignupOldJson ''User created successfully'' newUser))))"

text \<open>
  \<open>login\<close>: the two controller files have the same body. It changes no state. An
  exception of \<open>comparePassword\<close> is answered with status 500.
\<close>

definition login :: "env \<Rightarrow> store \<Rightarrow> login_body request \<Rightarrow> response" where
  "login e s req =
     (let b = body req in
      case findOne_email (users s) (lb_email b) of
        None \<Rightarrow> reply 400 (Message ''Invalid email or password'')
      | Some user \<Rightarrow>
          (case comparePassword e user (lb_password b) of
             Inl err \<Rightarrow> reply 500 (MessageOf err)
           | Inr isMatch \<Rightarrow>
               if \<not> isMatch then reply 400 (Message ''Invalid email or password'')
               else
                 (let token = jwt_sign e \<lparr>p_id = uid user, p_role = u_role user\<rparr>
                  in reply 200 (LoginJson ''Login successful'' token user))))"

text \<open>\<open>req.headers['authorization']?.split(' ')[1]\<close>.\<close>

definition optional_token :: "string option \<Rightarrow> string option" where
  "optional_token authHeader =
     (case authHeader of None \<Rightarrow> None | Some h \<Rightarrow> second (split_on CHR '' '' h))"

text \<open>\<open>tokenBlacklist.add\<close> of \<open>utils/tokenBlacklist\<close>.\<close>

definition blacklist_add :: "string \<Rightarrow> store \<Rightarrow> store" where
  "blacklist_add token s = s\<lparr>tokenBlacklist := insert token (tokenBlacklist s)\<rparr>"

text \<open>\<open>exports.logout\<close> of the controller: it adds the token to the shared blacklist.\<close>

definition logout :: "store \<Rightarrow> 'b request \<Rightarrow> store \<times> response" where
  "logout s req =
     (case optional_token (authorization req) of
        None \<Rightarrow> (s, reply 200 (Message ''Logout successful''))
      | Some token \<Rightarrow>
          if token = [] then (s, reply 200 (Message ''Logout successful''))
          else (blacklist_add token s, reply 200 (Message ''Logout successful'')))"

text \<open>
  The handler that the user routes file mounts on \<open>POST /logout\<close>. It pushes the token
  on the array the routes file declares itself.
\<close>

definition logout_handler :: "store \<Rightarrow> 'b request \<Rightarrow> store \<times> response" where
  "logout_handler s req =
     (case optional_token (authorization req) of
        None \<Rightarrow> (s, reply 400 (Message ''Token required''))
      | Some token \<Rightarrow>
          if token = [] then (s, reply 400 (Message ''Token required''))
          else (s\<lparr>routeBlacklist := routeBlacklist s @ [token]\<rparr>,
                reply 200 (Message ''Logout successful'')))"

definition post_logout :: "env \<Rightarrow> store \<Rightarrow> 'b request \<Rightarrow> store \<times> response" where
  "post_logout e = with_auth e logout_handler"

text \<open>\<open>GET /profile\<close>: \<open>res.json(req.user)\<close>.\<close>

definition getProfile :: "'b request \<Rightarrow> response" where
  "getProfile req = reply 200 (UserJson (req_user req))"

definition get_profile :: "env \<Rightarrow> store \<Rightarrow> 'b request \<Rightarrow> store \<times> response" where
  "get_profile e = with_auth e (\<lambda>s req. (s, getProfile req))"

section \<open>Courses, lessons and topics\<close>

text \<open>
  Schema validation on \<open>save\<close>: a required string must be present and not empty, a
  required id present and well-formed, every element of an id array well-formed.
\<close>

fun cast_ids :: "idparam list \<Rightarrow> objid list option" where
  "cast_ids [] = Some []"
| "cast_ids (Malformed # _) = None"
| "cast_ids (Oid i # xs) = (case cast_ids xs of None \<Rightarrow> None | Some js \<Rightarrow> Some (i # js))"

definition new_lesson :: "lesson_body \<Rightarrow> exn + lesson" where
  "new_lesson b =
     (case (lsb_title b, lsb_description b, lsb_courseId b) of
        (Some t, Some d, Some (Oid c)) \<Rightarrow>
          if t = [] \<or> d = [] then Inl ValidationError
          else (case cast_ids (case lsb_topics b of None \<Rightarrow> [] | Some ts \<Rightarrow> ts) of
                  None \<Rightarrow> Inl ValidationError
                | Some ts \<Rightarrow>
                    Inr \<lparr>l_title = t, l_description = d, l_courseId = c, l_topics = ts,
                         l_content = lsb_content b\<rparr>)
      | _ \<Rightarrow> Inl ValidationError)"

definition new_topic :: "topic_body \<Rightarrow> string option \<Rightarrow> exn + topic" where
  "new_topic b img =
     (case (tb_title b, tb_description b, tb_lessonId b) of
        (Some t, Some d, Some (Oid l)) \<Rightarrow>
          if t = [] \<or> d = [] then Inl ValidationError
          else Inr \<lparr>t_title = t, t_description = d, t_lessonId = l, t_image = img\<rparr>
      | _ \<Rightarrow> Inl ValidationError)"

text \<open>Saving a lesson that was read from the store validates its required fields again.\<close>

definition lesson_valid :: "lesson \<Rightarrow> bool" where
  "lesson_valid l = (l_title l \<noteq> [] \<and> l_description l \<noteq> [])"

text \<open>\<open>POST /lessons\<close>.\<close>

definition createLesson :: "store \<Rightarrow> lesson_body request \<Rightarrow> store \<times> response" where
  "createLesson s req =
     (case new_lesson (body req) of
        Inl error \<Rightarrow> (s, reply 400 (ErrorOf error))
      | Inr lesson \<Rightarrow>
          (s\<lparr>lessons := (lessons s)(next_id s \<mapsto> lesson), next_id := Suc (next_id s)\<rparr>,
           reply 201 (LessonJson (next_id s) lesson)))"

definition post_lessons :: "env \<Rightarrow> store \<Rightarrow> lesson_body request \<Rightarrow> store \<times> response" where
  "post_lessons e = with_admin e createLesson"

text \<open>
  \<open>DELETE /lessons/:id\<close>, the handler written in the lesson routes:
  \<open>Topic.deleteMany({ _id: { $in: lesson.topics } })\<close> removes the topics whose ids the
  deleted lesson lists. (The lesson controller exports a \<open>deleteLesson\<close> of its own,
  which no route mounts.)
\<close>

definition deleteMany_in :: "objid list \<Rightarrow> (objid \<rightharpoonup> topic) \<Rightarrow> (objid \<rightharpoonup> topic)" where
  "deleteMany_in ids ts = (\<lambda>i. if i \<in> set ids then None else ts i)"

definition delete_lesson_handler :: "store \<Rightarrow> 'b request \<Rightarrow> store \<times> response" where
  "delete_lesson_handler s req =
     (case params_id req of
        Malformed \<Rightarrow> (s, reply 400 (ErrorOf CastError))
      | Oid i \<Rightarrow>
          (case lessons s i of
             None \<Rightarrow> (s, reply 404 (Error ''Lesson not found''))
           | Some lesson \<Rightarrow>
               (s\<lparr>lessons := (lessons s)(i := None),
                  topics := deleteMany_in (l_topics lesson) (topics s)\<rparr>,
                reply 200 (Message ''Lesson deleted successfully''))))"

definition delete_lessons_id :: "env \<Rightarrow> store \<Rightarrow> 'b request \<Rightarrow> store \<times> response" where
  "delete_lessons_id e = with_admin e delete_lesson_handler"

text \<open>
  \<open>POST /admin/topics\<close>: the topic is saved, then the lesson is looked up, then the
  topic's id is pushed on the lesson's \<open>topics\<close> and the lesson saved.
\<close>

definition createTopic :: "store \<Rightarrow> topic_body request \<Rightarrow> store \<times> response" where
  "createTopic s req =
     (let img = file_path req in
      case new_topic (body req) img of
        Inl error \<Rightarrow> (s, reply 400 (ErrorOf error))
      | Inr topic \<Rightarrow>
          (let tid = next_id s;
               s1 = s\<lparr>topics := (topics s)(tid \<mapsto> topic), next_id := Suc tid\<rparr>
           in case lessons s1 (t_lessonId topic) of
                None \<Rightarrow> (s1, reply 404 (Error ''Lesson not found''))
              | Some lesson \<Rightarrow>
                  (let lesson' = lesson\<lparr>l_topics := l_topics lesson @ [tid]\<rparr>
                   in if lesson_valid lesson' then
                        (s1\<lparr>lessons := (lessons s1)(t_lessonId topic \<mapsto> lesson')\<rparr>,
                         reply 201 (TopicJson tid topic))
                      else (s1, reply 400 (ErrorOf ValidationError)))))"

definition post_admin_topics :: "env \<Rightarrow> store \<Rightarrow> topic_body request \<Rightarrow> store \<times> response" where
  "post_admin_topics e = with_admin e createTopic"

text \<open>\<open>GET /topics/:id\<close>.\<close>

definition getTopic :: "store \<Rightarrow> 'b request \<Rightarrow> response" where
  "getTopic s req =
     (case params_id req of
        Malformed \<Rightarrow> reply 400 (ErrorOf CastError)
      | Oid i \<Rightarrow>
          (case topics s i of
             None \<Rightarrow> reply 404 (Error ''Topic not found'')
           | Some topic \<Rightarrow> reply 200 (TopicJson i topic)))"

definition get_topics_id :: "env \<Rightarrow> store \<Rightarrow> 'b request \<Rightarrow> store \<times> response" where
  "get_topics_id e = with_auth e (\<lambda>s req. (s, getTopic s req))"

text \<open>
  \<open>PUT /admin/topics/:id\<close>: \<open>findByIdAndUpdate\<close> with \<open>{title, description, lessonId}\<close>
  and, when a file came, \<open>image\<close>. Update validators are off, so only the casts can
  fail; a field the body leaves out keeps its stored value. The lessons are not touched.
\<close>

definition updateTopic :: "store \<Rightarrow> topic_body request \<Rightarrow> store \<times> response" where
  "updateTopic s req =
     (let b = body req; img = file_path req in
      case params_id req of
        Malformed \<Rightarrow> (s, reply 400 (ErrorOf CastError))
      | Oid i \<Rightarrow>
          (case tb_lessonId b of
             Some Malformed \<Rightarrow> (s, reply 400 (ErrorOf CastError))
           | lid \<Rightarrow>
               (case topics s i of
                  None \<Rightarrow> (s, reply 404 (Error ''Topic not found''))
                | Some old \<Rightarrow>
                    (let topic =
                       \<lparr>t_title = (case tb_title b of None \<Rightarrow> t_title old | Some t \<Rightarrow> t),
                        t_description =
                          (case tb_description b of None \<Rightarrow> t_description old | Some d \<Rightarrow> d),
                        t_lessonId = (case lid of Some (Oid l) \<Rightarrow> l | _ \<Rightarrow> t_lessonId old),
                        t_image = (case img of None \<Rightarrow> t_image old | Some p \<Rightarrow> Some p)\<rparr>
                     in (s\<lparr>topics := (topics s)(i \<mapsto> topic)\<rparr>,
                         reply 200 (TopicJson i topic))))))"

definition put_admin_topics_id :: "env \<Rightarrow> store \<Rightarrow> topic_body request \<Rightarrow> store \<times> response" where
  "put_admin_topics_id e = with_admin e updateTopic"

text \<open>
  \<open>DELETE /admin/topics/:id\<close>: the topic is deleted first; when its lesson exists, the
  topic's id is pulled from the lesson's \<open>topics\<close> and the lesson saved; when it does
  not, that step is skipped.
\<close>

definition deleteTopic :: "store \<Rightarrow> 'b request \<Rightarrow> store \<times> response" where
  "deleteTopic s req =
     (case params_id req of
        Malformed \<Rightarrow> (s, reply 400 (ErrorOf CastError))
      | Oid i \<Rightarrow>
          (case topics s i of
             None \<Rightarrow> (s, reply 404 (Error ''Topic not found''))
           | Some topic \<Rightarrow>
               (let s1 = s\<lparr>topics := (topics s)(i := None)\<rparr>
                in case lessons s1 (t_lessonId topic) of
                     None \<Rightarrow> (s1, reply 200 (Message ''Topic deleted successfully''))
                   | Some lesson \<Rightarrow>
                       (let lesson' = lesson\<lparr>l_topics := removeAll i (l_topics lesson)\<rparr>
                        in if lesson_valid lesson' then
                             (s1\<lparr>lessons := (lessons s1)(t_lessonId topic \<mapsto> lesson')\<rparr>,
                              reply 200 (Message ''Topic deleted successfully''))
                           else (s1, reply 400 (ErrorOf ValidationError))))))"

definition delete_admin_topics_id :: "env \<Rightarrow> store \<Rightarrow> 'b request \<Rightarrow> store \<times> response" where
  "delete_admin_topics_id e = with_admin e deleteTopic"

text \<open>\<open>DELETE /admin/courses/:id\<close>.\<close>

definition deleteCourse :: "store \<Rightarrow> 'b request \<Rightarrow> store \<times> response" where
  "deleteCourse s req =
     (case params_id req of
        Malformed \<Rightarrow> (s, reply 400 (ErrorOf CastError))
      | Oid i \<Rightarrow>
          (case courses s i of
             None \<Rightarrow> (s, reply 404 (Error ''Course not found''))
           | Some course \<Rightarrow>
               (s\<lparr>courses := (courses s)(i := None)\<rparr>,
                reply 200 (Message ''Course deleted successfully''))))"

definition delete_admin_courses_id :: "env \<Rightarrow> store \<Rightarrow> 'b request \<Rightarrow> store \<times> response" where
  "delete_admin_courses_id e = with_admin e deleteCourse"

text \<open>
  \<open>GET /courses/:id\<close>: the result of \<open>findById\<close> is sent as it is, \<open>null\<close> included.
\<close>

definition getCourse :: "store \<Rightarrow> 'b request \<Rightarrow> response" where
  "getCourse s req =
     (case params_id req of
        Malformed \<Rightarrow> reply 400 (ErrorOf CastError)
      | Oid i \<Rightarrow> reply 200 (CourseJson (courses s i)))"

definition get_courses_id :: "env \<Rightarrow> store \<Rightarrow> 'b request \<Rightarrow> store \<times> response" where
  "get_courses_id e = with_auth e (\<lambda>s req. (s, getCourse s req))"

section \<open>A concrete deployment for the scenarios\<close>

text \<open>
  Stand-ins for the token library and the user model, used where a property is run on
  concrete requests: a token spells its subject id in unary, then a dot, then the role;
  a saved user needs an email and a password, and the password is stored prefixed;
  \<open>comparePassword\<close> throws when the request gives no password to compare, as the
  \<open>compare\<close> of a password-hashing library does.
\<close>

definition fx_sign :: "payload \<Rightarrow> string" where
  "fx_sign p = replicate (p_id p) CHR ''x'' @ CHR ''.'' # p_role p"

definition fx_verify :: "string \<Rightarrow> payload option" where
  "fx_verify t =
     (case dropWhile (\<lambda>c. c = CHR ''x'') t of
        [] \<Rightarrow> None
      | d # r \<Rightarrow>
          if d = CHR ''.'' then
            Some \<lparr>p_id = length (takeWhile (\<lambda>c. c = CHR ''x'') t), p_role = r\<rparr>
          else None)"

definition fx_save :: "user list \<Rightarrow> user \<Rightarrow> exn + user" where
  "fx_save us u =
     (case (u_email u, u_password u) of
        (Some em, Some pw) \<Rightarrow>
          if em = [] \<or> pw = [] \<or> u_role u \<notin> {''user'', ''admin''} then Inl ValidationError
          else if find (\<lambda>v. u_email v = Some em) us \<noteq> None then Inl (OtherError ''E11000'')
          else Inr (u\<lparr>u_password := Some (CHR ''#'' # pw)\<rparr>)
      | _ \<Rightarrow> Inl ValidationError)"

definition fx_compare :: "user \<Rightarrow> string option \<Rightarrow> exn + bool" where
  "fx_compare u pw =
     (case pw of
        None \<Rightarrow> Inl (OtherError ''data and hash arguments required'')
      | Some p \<Rightarrow> Inr (u_password u = Some (CHR ''#'' # p)))"

definition fx_env :: env where
  "fx_env = \<lparr>jwt_sign = fx_sign, jwt_verify = fx_verify, user_save = fx_save,
             comparePassword = fx_compare\<rparr>"

definition empty_store :: store where
  "empty_store = \<lparr>users = [], courses = Map.empty, lessons = Map.empty, topics = Map.empty,
                  tokenBlacklist = {}, routeBlacklist = [], next_id = 0\<rparr>"

definition bearer :: "string \<Rightarrow> 'b \<Rightarrow> idparam \<Rightarrow> 'b request" where
  "bearer token b i =
     \<lparr>authorization = Some (''Bearer '' @ token), params_id = i, body = b,
      file_path = None, req_user = None\<rparr>"

definition anonymous :: "'b \<Rightarrow> 'b request" where
  "anonymous b =
     \<lparr>authorization = None, params_id = Malformed, body = b, file_path = None,
      req_user = None\<rparr>"

text \<open>Two registered users: a plain user (token \<open>.user\<close>) and an admin (token \<open>x.admin\<close>).\<close>

definition alice :: user where
  "alice = \<lparr>uid = 0, u_name = Some ''A'', u_email = Some ''a@x.com'',
            u_password = Some ''#p1'', u_role = ''user'', u_profilePhoto = None,
            u_phoneNumber = None, u_courses = None, u_knowledge = None\<rparr>"

definition root :: user where
  "root = \<lparr>uid = 1, u_name = Some ''R'', u_email = Some ''root@x.com'',
           u_password = Some ''#s3'', u_role = ''admin'', u_profilePhoto = None,
           u_phoneNumber = None, u_courses = None, u_knowledge = None\<rparr>"

definition admin_store :: store where
  "admin_store = empty_store\<lparr>users := [alice, root], next_id := 2\<rparr>"

text \<open>The same users, with the admin's token revoked.\<close>

definition gate_store :: store where
  "gate_store = admin_store\<lparr>tokenBlacklist := {''x.admin''}\<rparr>"

text \<open>
  The spec's scenario: signup of \<open>{name: "A", email: "a@x.com", password: "p1"}\<close> on an
  empty store, then requests that carry the token of the signup response.
\<close>

definition sc_signup :: "signup_body request" where
  "sc_signup =
     anonymous \<lparr>sb_name = Some ''A'', sb_email = Some ''a@x.com'', sb_password = Some ''p1'',
                sb_role = None, sb_profilePhoto = None, sb_phoneNumber = None,
                sb_courses = None, sb_knowledge = None\<rparr>"

definition sc_after_signup :: store where
  "sc_after_signup = fst (signup fx_env empty_store sc_signup)"

definition sc_after_logout :: store where
  "sc_after_logout = fst (post_logout fx_env sc_after_signup (bearer ''.user'' () Malformed))"

text \<open>The \<open>token\<close> field of a response body, when the body has one.\<close>

definition response_token :: "response \<Rightarrow> string option" where
  "response_token r =
     (case json_body r of
        SignupJson _ _ token \<Rightarrow> Some token
      | LoginJson _ token _ \<Rightarrow> Some token
      | _ \<Rightarrow> None)"

text \<open>Two login attempts that send no password: a known email and an unknown one.\<close>

definition login_known_nopw :: "login_body request" where
  "login_known_nopw = anonymous \<lparr>lb_email = Some ''a@x.com'', lb_password = None\<rparr>"

definition login_unknown_nopw :: "login_body request" where
  "login_unknown_nopw = anonymous \<lparr>lb_email = Some ''nobody@x.com'', lb_password = None\<rparr>"

text \<open>Two login attempts: an unknown email, and a known email with a wrong password.\<close>

definition login_unknown :: "login_body request" where
  "login_unknown = anonymous \<lparr>lb_email = Some ''nobody@x.com'', lb_password = Some ''p1''\<rparr>"

definition login_wrong :: "login_body request" where
  "login_wrong = anonymous \<lparr>lb_email = Some ''a@x.com'', lb_password = Some ''p2''\<rparr>"

text \<open>
  A catalog built through the routes by the admin: on a store with one course (id 2),
  two lessons are created (ids 3 and 4), a topic is created under lesson 4 (id 5), and
  the topic is then updated to name lesson 3 as its lesson.
\<close>

definition school_store :: store where
  "school_store =
     admin_store\<lparr>courses := [2 \<mapsto> \<lparr>c_title = ''Algebra'', c_description = ''Groups'',
                                     c_instructor = ''N'', c_price = 10, c_image = None\<rparr>],
                 next_id := 3\<rparr>"

definition lesson_one :: lesson_body where
  "lesson_one = \<lparr>lsb_title = Some ''L1'', lsb_description = Some ''one'',
                 lsb_courseId = Some (Oid 2), lsb_topics = None, lsb_content = None\<rparr>"

definition lesson_two :: lesson_body where
  "lesson_two = \<lparr>lsb_title = Some ''L2'', lsb_description = Some ''two'',
                 lsb_courseId = Some (Oid 2), lsb_topics = None, lsb_content = None\<rparr>"

definition topic_new :: topic_body where
  "topic_new = \<lparr>tb_title = Some ''T'', tb_description = Some ''new'',
                tb_lessonId = Some (Oid 4)\<rparr>"

definition topic_moved :: topic_body where
  "topic_moved = \<lparr>tb_title = Some ''T'', tb_description = Some ''moved'',
                  tb_lessonId = Some (Oid 3)\<rparr>"

definition school_1 :: store where
  "school_1 = fst (post_lessons fx_env school_store (bearer ''x.admin'' lesson_one Malformed))"

definition school_2 :: store where
  "school_2 = fst (post_lessons fx_env school_1 (bearer ''x.admin'' lesson_two Malformed))"

definition school_3 :: store where
  "school_3 = fst (post_admin_topics fx_env school_2 (bearer ''x.admin'' topic_new Malformed))"

definition school_4 :: store where
  "school_4 =
     fst (put_admin_topics_id fx_env school_3 (bearer ''x.admin'' topic_moved (Oid 5)))"

definition school_5 :: store where
  "school_5 = fst (delete_lessons_id fx_env school_4 (bearer ''x.admin'' () (Oid 3)))"

text \<open>Requests that name a parent that does not exist (no document has id 7).\<close>

definition topic_orphan :: topic_body where
  "topic_orphan = \<lparr>tb_title = Some ''T'', tb_description = Some ''orphan'',
                   tb_lessonId = Some (Oid 7)\<rparr>"



definition orphan_store :: store where
  "orphan_store =
     fst (post_admin_topics fx_env admin_store (bearer ''x.admin'' topic_orphan Malformed))"

text \<open>A request has passed the authenticate stage as user \<open>u\<close>.\<close>

definition admitted :: "env \<Rightarrow> store \<Rightarrow> 'b request \<Rightarrow> user \<Rightarrow> bool" where
  "admitted e s req u = (authenticateToken e s req = Next (req\<lparr>req_user := Some u\<rparr>))"

section \<open>The auth gate: outcomes\<close>

lemma split_on_no_sep: "c \<notin> set t \<Longrightarrow> split_on c t = [t]"
  by (induction t) auto

lemma header_token_bearer:
  "CHR '' '' \<notin> set t \<Longrightarrow> header_token (authorization (bearer t b i)) = Some t"
  by (simp add: bearer_def header_token_def split_on_no_sep)

lemma falsy_iff: "falsy t \<longleftrightarrow> t = None \<or> t = Some []"
  by (cases t) (auto simp: falsy_def)

text \<open>
  C1. The authenticate stage has exactly these outcomes, tried in this order: no bearer
  token in the authorization header, status 401; a token in the blacklist, status 403,
  whatever the verification of its signature and expiry would say (the verifier is not
  consulted: the answer is the same under every verifier); a token that fails
  verification, status 403; a verified token whose subject id has no user record, status
  404; otherwise the request goes on to the handler with the user record attached.
\<close>

theorem authenticateToken_outcomes:
  fixes e :: env and s :: store and req :: "'b request"
  shows
  "(falsy (header_token (authorization req)) \<longrightarrow>
      authenticateToken e s req =
        Respond (reply 401 (Message ''Access denied. No token provided.''))) \<and>
   (\<forall>tok. header_token (authorization req) = Some tok \<and> tok \<noteq> [] \<longrightarrow>
      (tok \<in> tokenBlacklist s \<longrightarrow>
         (\<forall>e'. authenticateToken e' s req =
            Respond (reply 403 (Message ''Token is blacklisted. Please log in again.'')))) \<and>
      (tok \<notin> tokenBlacklist s \<and> jwt_verify e tok = None \<longrightarrow>
         authenticateToken e s req = Respond (reply 403 (Message ''Invalid token.''))) \<and>
      (\<forall>p. tok \<notin> tokenBlacklist s \<and> jwt_verify e tok = Some p \<longrightarrow>
         (findById (users s) (p_id p) = None \<longrightarrow>
            authenticateToken e s req = Respond (reply 404 (Message ''User not found.''))) \<and>
         (\<forall>u. findById (users s) (p_id p) = Some u \<longrightarrow>
            authenticateToken e s req = Next (req\<lparr>req_user := Some u\<rparr>))))"
  by (auto simp: authenticateToken_def isBlacklisted_def falsy_iff Let_def)

theorem authenticateToken_outcomes_witness:
  "authenticateToken fx_env gate_store (anonymous ()) =
     Respond (reply 401 (Message ''Access denied. No token provided.'')) \<and>
   jwt_verify fx_env ''x.admin'' = Some \<lparr>p_id = 1, p_role = ''admin''\<rparr> \<and>
   findById (users gate_store) 1 = Some root \<and>
   authenticateToken fx_env gate_store (bearer ''x.admin'' () Malformed) =
     Respond (reply 403 (Message ''Token is blacklisted. Please log in again.'')) \<and>
   authenticateToken fx_env gate_store (bearer ''garbage'' () Malformed) =
     Respond (reply 403 (Message ''Invalid token.'')) \<and>
   authenticateToken fx_env gate_store (bearer ''xxx.user'' () Malformed) =
     Respond (reply 404 (Message ''User not found.'')) \<and>
   authenticateToken fx_env gate_store (bearer ''.user'' () Malformed) =
     Next ((bearer ''.user'' () Malformed)\<lparr>req_user := Some alice\<rparr>)"
proof -
  note T = authenticateToken_outcomes [where e = fx_env and s = gate_store]
  note tok = header_token_bearer
  have bl: "tokenBlacklist gate_store = {''x.admin''}"
    by (simp add: gate_store_def admin_store_def empty_store_def)
  have us: "users gate_store = [alice, root]"
    by (simp add: gate_store_def admin_store_def empty_store_def)
  have c1: "authenticateToken fx_env gate_store (anonymous ()) =
     Respond (reply 401 (Message ''Access denied. No token provided.''))"
    using T [where req = "anonymous ()"]
    by (simp add: anonymous_def header_token_def falsy_def)
  have v2: "jwt_verify fx_env ''x.admin'' = Some \<lparr>p_id = 1, p_role = ''admin''\<rparr>"
    by (simp add: fx_env_def fx_verify_def)
  have u2: "findById (users gate_store) 1 = Some root"
    by (simp add: us findById_def alice_def root_def)
  have c2: "authenticateToken fx_env gate_store (bearer ''x.admin'' () Malformed) =
     Respond (reply 403 (Message ''Token is blacklisted. Please log in again.''))"
    using T [where req = "bearer ''x.admin'' () Malformed"]
    by (simp add: tok bl)
  have c3: "authenticateToken fx_env gate_store (bearer ''garbage'' () Malformed) =
     Respond (reply 403 (Message ''Invalid token.''))"
    using T [where req = "bearer ''garbage'' () Malformed"]
    by (simp add: tok bl fx_env_def fx_verify_def)
  have c4: "authenticateToken fx_env gate_store (bearer ''xxx.user'' () Malformed) =
     Respond (reply 404 (Message ''User not found.''))"
    using T [where req = "bearer ''xxx.user'' () Malformed"]
    by (simp add: tok bl us fx_env_def fx_verify_def findById_def alice_def root_def)
  have c5: "authenticateToken fx_env gate_store (bearer ''.user'' () Malformed) =
     Next ((bearer ''.user'' () Malformed)\<lparr>req_user := Some alice\<rparr>)"
    using T [where req = "bearer ''.user'' () Malformed"]
    by (simp add: tok bl us fx_env_def fx_verify_def findById_def alice_def root_def)
  from c1 v2 u2 c2 c3 c4 c5 show ?thesis by blast
qed

section \<open>Routes behind the gate\<close>

text \<open>An admitted request reaches the handler with the user attached.\<close>

lemma with_auth_admitted:
  "admitted e s req u \<Longrightarrow> with_auth e h s req = h s (req\<lparr>req_user := Some u\<rparr>)"
  by (simp add: admitted_def with_auth_def)

lemma with_admin_admitted:
  "admitted e s req u \<Longrightarrow> u_role u = ''admin'' \<Longrightarrow>
   with_admin e h s req = h s (req\<lparr>req_user := Some u\<rparr>)"
  by (simp add: admitted_def with_admin_def authorizeRoles_def)

text \<open>The gate reads the users and the shared blacklist, nothing else of the state.\<close>

lemma admitted_cong:
  "users s' = users s \<Longrightarrow> tokenBlacklist s' = tokenBlacklist s \<Longrightarrow>
   authenticateToken e s' req = authenticateToken e s req"
  by (simp add: authenticateToken_def isBlacklisted_def cong: option.case_cong if_cong)

section \<open>Logout\<close>

text \<open>
  The handler mounted on \<open>POST /logout\<close> writes to the array of the routes file, so
  the gate answers every later request as it did before. The controller's \<open>logout\<close>
  writes to the shared blacklist, and the gate then refuses the token.
\<close>

lemma logout_handler_frame:
  "users (fst (logout_handler s req)) = users s \<and>
   tokenBlacklist (fst (logout_handler s req)) = tokenBlacklist s"
  by (simp add: logout_handler_def split: option.splits)

lemma post_logout_gate_unchanged:
  "authenticateToken e' (fst (post_logout e s req)) req' = authenticateToken e' s req'"
  by (rule admitted_cong)
     (simp_all add: post_logout_def with_auth_def logout_handler_frame split: step.splits)

lemma logout_revokes:
  assumes "optional_token (authorization req) = Some tok" "tok \<noteq> []"
      and "header_token (authorization req') = Some tok"
  shows "authenticateToken e' (fst (logout s req)) req' =
         Respond (reply 403 (Message ''Token is blacklisted. Please log in again.''))"
  using assms
  by (simp add: logout_def blacklist_add_def authenticateToken_def isBlacklisted_def falsy_def)

lemma sc_signup_result:
  "signup fx_env empty_store sc_signup =
     (empty_store\<lparr>users := [alice], next_id := 1\<rparr>,
      reply 201 (SignupJson ''User created successfully'' alice ''.user''))"
  by (simp add: signup_def sc_signup_def anonymous_def empty_store_def findOne_email_def
      new_user_def role_or_user_def fx_env_def fx_save_def fx_sign_def alice_def)

lemma sc_admitted:
  "admitted fx_env (empty_store\<lparr>users := [alice], next_id := 1\<rparr>)
     (bearer ''.user'' () Malformed) alice"
  apply (simp add: admitted_def)
  apply (simp add: authenticateToken_def header_token_bearer falsy_def
      isBlacklisted_def empty_store_def fx_env_def fx_verify_def findById_def alice_def)
  done

text \<open>
  C2. The scenario of the spec, run on the code: signup answers 201 with token
  \<open>.user\<close>; the profile request with that token answers 200; \<open>POST /logout\<close> with
  the token answers 200; the profile request with the same token after logout still
  answers 200 with the user record, where the claim says 403.
\<close>

theorem logout_scenario:
  "signup fx_env empty_store sc_signup =
     (sc_after_signup, reply 201 (SignupJson ''User created successfully'' alice ''.user'')) \<and>
   snd (get_profile fx_env sc_after_signup (bearer ''.user'' () Malformed)) =
     reply 200 (UserJson (Some alice)) \<and>
   post_logout fx_env sc_after_signup (bearer ''.user'' () Malformed) =
     (sc_after_logout, reply 200 (Message ''Logout successful'')) \<and>
   snd (get_profile fx_env sc_after_logout (bearer ''.user'' () Malformed)) =
     reply 200 (UserJson (Some alice))"
proof -
  let ?r = "bearer ''.user'' () Malformed :: unit request"
  have s1: "sc_after_signup = empty_store\<lparr>users := [alice], next_id := 1\<rparr>"
    by (simp add: sc_after_signup_def sc_signup_result)
  have a1: "admitted fx_env sc_after_signup ?r alice"
    unfolding s1 by (rule sc_admitted)
  have p1: "snd (get_profile fx_env sc_after_signup ?r) = reply 200 (UserJson (Some alice))"
    by (simp add: get_profile_def with_auth_admitted [OF a1] getProfile_def)
  have tok: "optional_token (authorization ?r) = Some ''.user''"
    by (simp add: optional_token_def bearer_def)
  have lo: "snd (post_logout fx_env sc_after_signup ?r) = reply 200 (Message ''Logout successful'')"
    unfolding post_logout_def with_auth_admitted [OF a1]
    by (simp add: logout_handler_def bearer_def optional_token_def)
  have a2: "admitted fx_env sc_after_logout ?r alice"
    using a1 by (simp add: admitted_def sc_after_logout_def post_logout_gate_unchanged)
  have p2: "snd (get_profile fx_env sc_after_logout ?r) = reply 200 (UserJson (Some alice))"
    by (simp add: get_profile_def with_auth_admitted [OF a2] getProfile_def)
  show ?thesis
    using p1 lo p2 by (simp add: sc_signup_result s1 sc_after_logout_def prod_eq_iff)
qed

section \<open>Login and signup\<close>

text \<open>The three failures of \<open>login\<close>, branch by branch.\<close>

lemma login_unknown_email:
  "findOne_email (users s) (lb_email (body r)) = None \<Longrightarrow>
   login e s r = reply 400 (Message ''Invalid email or password'')"
  by (simp add: login_def)

lemma login_compare_false:
  "findOne_email (users s) (lb_email (body r)) = Some u \<Longrightarrow>
   comparePassword e u (lb_password (body r)) = Inr False \<Longrightarrow>
   login e s r = reply 400 (Message ''Invalid email or password'')"
  by (simp add: login_def)

lemma login_compare_throws:
  "findOne_email (users s) (lb_email (body r)) = Some u \<Longrightarrow>
   comparePassword e u (lb_password (body r)) = Inl err \<Longrightarrow>
   login e s r = reply 500 (MessageOf err)"
  by (simp add: login_def)

lemma admin_store_emails:
  "findOne_email (users admin_store) (Some ''a@x.com'') = Some alice"
  "findOne_email (users admin_store) (Some ''nobody@x.com'') = None"
  by (simp_all add: findOne_email_def admin_store_def empty_store_def alice_def root_def)

text \<open>
  C10, as stated, fails. Two login requests send no password; one names a registered
  email, the other an unknown one. The unknown email is answered 400 "Invalid email or
  password"; for the registered one \<open>comparePassword\<close> throws and the \<open>catch\<close> answers
  500 with the error's message. The two responses differ, so the response tells the
  caller that the email is registered.
\<close>

theorem login_reveals_registration:
  "findOne_email (users admin_store) (lb_email (body login_unknown_nopw)) = None \<and>
   findOne_email (users admin_store) (lb_email (body login_known_nopw)) = Some alice \<and>
   lb_password (body login_known_nopw) = lb_password (body login_unknown_nopw) \<and>
   u_password alice \<noteq> lb_password (body login_known_nopw) \<and>
   login fx_env admin_store login_unknown_nopw =
     reply 400 (Message ''Invalid email or password'') \<and>
   login fx_env admin_store login_known_nopw =
     reply 500 (MessageOf (OtherError ''data and hash arguments required'')) \<and>
   login fx_env admin_store login_known_nopw \<noteq> login fx_env admin_store login_unknown_nopw"
proof -
  have h1: "findOne_email (users admin_store) (lb_email (body login_unknown_nopw)) = None"
    by (simp add: login_unknown_nopw_def anonymous_def admin_store_emails)
  have h2: "findOne_email (users admin_store) (lb_email (body login_known_nopw)) = Some alice"
    by (simp add: login_known_nopw_def anonymous_def admin_store_emails)
  have h3: "comparePassword fx_env alice (lb_password (body login_known_nopw)) =
              Inl (OtherError ''data and hash arguments required'')"
    by (simp add: fx_env_def fx_compare_def login_known_nopw_def anonymous_def)
  have p: "lb_password (body login_known_nopw) = lb_password (body login_unknown_nopw)"
    "u_password alice \<noteq> lb_password (body login_known_nopw)"
    by (simp_all add: login_known_nopw_def login_unknown_nopw_def anonymous_def alice_def)
  have r1: "login fx_env admin_store login_unknown_nopw =
     reply 400 (Message ''Invalid email or password'')"
    by (rule login_unknown_email [OF h1])
  have r2: "login fx_env admin_store login_known_nopw =
     reply 500 (MessageOf (OtherError ''data and hash arguments required''))"
    by (rule login_compare_throws [OF h2 h3])
  show ?thesis using h1 h2 p r1 r2 by (simp add: reply_def)
qed

text \<open>
  C10, amended. A login with an email that matches no user and a login with a
  registered email and a password on which \<open>comparePassword\<close> returns false get the same
  response: status 400 with the message "Invalid email or password". When
  \<open>comparePassword\<close> throws instead, the login with the registered email is answered
  with status 500 and the error's message, which is not the response to the unknown
  email.
\<close>

theorem login_failures_identical:
  fixes e1 e2 :: env and s1 s2 :: store and r1 r2 :: "login_body request"
  shows
  "(\<forall>u. findOne_email (users s1) (lb_email (body r1)) = None \<and>
        findOne_email (users s2) (lb_email (body r2)) = Some u \<and>
        comparePassword e2 u (lb_password (body r2)) = Inr False \<longrightarrow>
        login e1 s1 r1 = reply 400 (Message ''Invalid email or password'') \<and>
        login e2 s2 r2 = login e1 s1 r1) \<and>
   (\<forall>u err. findOne_email (users s1) (lb_email (body r1)) = None \<and>
        findOne_email (users s2) (lb_email (body r2)) = Some u \<and>
        comparePassword e2 u (lb_password (body r2)) = Inl err \<longrightarrow>
        login e2 s2 r2 = reply 500 (MessageOf err) \<and>
        login e2 s2 r2 \<noteq> login e1 s1 r1)"
  by (auto simp: login_unknown_email login_compare_false login_compare_throws reply_def)

theorem login_failures_identical_witness:
  "findOne_email (users admin_store) (lb_email (body login_unknown)) = None \<and>
   findOne_email (users admin_store) (lb_email (body login_wrong)) = Some alice \<and>
   comparePassword fx_env alice (lb_password (body login_wrong)) = Inr False \<and>
   login fx_env admin_store login_unknown = reply 400 (Message ''Invalid email or password'') \<and>
   login fx_env admin_store login_wrong = login fx_env admin_store login_unknown \<and>
   findOne_email (users admin_store) (lb_email (body login_known_nopw)) = Some alice \<and>
   comparePassword fx_env alice (lb_password (body login_known_nopw)) =
     Inl (OtherError ''data and hash arguments required'') \<and>
   login fx_env admin_store login_known_nopw =
     reply 500 (MessageOf (OtherError ''data and hash arguments required'')) \<and>
   login fx_env admin_store login_known_nopw \<noteq> login fx_env admin_store login_unknown"
proof -
  have h1: "findOne_email (users admin_store) (lb_email (body login_unknown)) = None"
    by (simp add: login_unknown_def anonymous_def admin_store_emails)
  have h2: "findOne_email (users admin_store) (lb_email (body login_wrong)) = Some alice"
    by (simp add: login_wrong_def anonymous_def admin_store_emails)
  have h3: "comparePassword fx_env alice (lb_password (body login_wrong)) = Inr False"
    by (simp add: fx_env_def fx_compare_def login_wrong_def anonymous_def alice_def)
  have h4: "findOne_email (users admin_store) (lb_email (body login_known_nopw)) = Some alice"
    by (simp add: login_known_nopw_def anonymous_def admin_store_emails)
  have h5: "comparePassword fx_env alice (lb_password (body login_known_nopw)) =
              Inl (OtherError ''data and hash arguments required'')"
    by (simp add: fx_env_def fx_compare_def login_known_nopw_def anonymous_def)
  note A = login_failures_identical
    [of admin_store login_unknown admin_store login_wrong fx_env fx_env,
     THEN conjunct1, THEN spec, THEN mp, OF conjI [OF h1 conjI [OF h2 h3]]]
  note B = login_failures_identical
    [of admin_store login_unknown admin_store login_known_nopw fx_env fx_env,
     THEN conjunct2, THEN spec, THEN spec, THEN mp, OF conjI [OF h1 conjI [OF h4 h5]]]
  from A B h1 h2 h3 h4 h5 show ?thesis by (simp add: reply_def)
qed

text \<open>The two \<open>signup\<close> functions on a payload with a new email that the model saves.\<close>

lemma signup_issues_token:
  assumes unique: "findOne_email (users s) (sb_email (body req)) = None"
      and valid: "user_save e (users s) (new_user (next_id s) (body req)) = Inr newUser"
  shows "signup e s req =
           (s\<lparr>users := users s @ [newUser], next_id := Suc (next_id s)\<rparr>,
            reply 201 (SignupJson ''User created successfully'' newUser
              (jwt_sign e \<lparr>p_id = uid newUser, p_role = u_role newUser\<rparr>)))"
  using assms by (simp add: signup_def)

lemma signup_old_no_token:
  assumes "findOne_email (users s) (sb_email (body req)) = None"
      and "user_save e (users s) (new_user_old (next_id s) (body req)) = Inr newUser"
  shows "signup_old e s req =
           (s\<lparr>users := users s @ [newUser], next_id := Suc (next_id s)\<rparr>,
            reply 201 (SignupOldJson ''User created successfully'' newUser))"
  using assms by (simp add: signup_old_def)

lemma sc_signup_old_save:
  "user_save fx_env (users empty_store) (new_user_old (next_id empty_store) (body sc_signup)) =
     Inr alice"
  by (simp add: fx_env_def fx_save_def empty_store_def new_user_old_def sc_signup_def
      anonymous_def role_or_user_def alice_def)

lemma sc_signup_unique:
  "findOne_email (users empty_store) (sb_email (body sc_signup)) = None"
  by (simp add: findOne_email_def empty_store_def)

text \<open>
  C6, as stated, fails on \<open>signup\<close> of \<open>controllers/userController.js\<close>: for the valid
  payload of the spec's scenario with a new email it answers 201 with the created user,
  and the response has no token.
\<close>

theorem signup_old_response_has_no_token:
  "findOne_email (users empty_store) (sb_email (body sc_signup)) = None \<and>
   user_save fx_env (users empty_store) (new_user_old (next_id empty_store) (body sc_signup)) =
     Inr alice \<and>
   snd (signup_old fx_env empty_store sc_signup) =
     reply 201 (SignupOldJson ''User created successfully'' alice) \<and>
   response_token (snd (signup_old fx_env empty_store sc_signup)) = None"
  using sc_signup_unique sc_signup_old_save
  by (simp add: signup_old_no_token [OF sc_signup_unique sc_signup_old_save]
      response_token_def reply_def)

text \<open>
  C6, amended. For a signup payload with an email not yet registered that the user
  model saves (a valid payload), the response has status 201 in both variants. The
  \<open>signup\<close> that issues a token puts it in the response; with a token library that
  verifies the token it has just signed, verification of that token succeeds, and the
  id and role it yields are those of the stored user record. The \<open>signup\<close> of
  \<open>controllers/userController.js\<close> answers with the created user record and no token.
\<close>

theorem signup_token_by_variant:
  fixes e :: env and s :: store and req :: "signup_body request"
  shows
  "(\<forall>newUser.
      findOne_email (users s) (sb_email (body req)) = None \<and>
      user_save e (users s) (new_user (next_id s) (body req)) = Inr newUser \<and>
      jwt_verify e (jwt_sign e \<lparr>p_id = uid newUser, p_role = u_role newUser\<rparr>) =
        Some \<lparr>p_id = uid newUser, p_role = u_role newUser\<rparr> \<longrightarrow>
      (\<exists>token p.
         snd (signup e s req) =
           reply 201 (SignupJson ''User created successfully'' newUser token) \<and>
         response_token (snd (signup e s req)) = Some token \<and>
         jwt_verify e token = Some p \<and>
         p_id p = uid newUser \<and>
         p_role p = u_role newUser \<and>
         users (fst (signup e s req)) = users s @ [newUser])) \<and>
   (\<forall>newUser.
      findOne_email (users s) (sb_email (body req)) = None \<and>
      user_save e (users s) (new_user_old (next_id s) (body req)) = Inr newUser \<longrightarrow>
      snd (signup_old e s req) =
        reply 201 (SignupOldJson ''User created successfully'' newUser) \<and>
      response_token (snd (signup_old e s req)) = None \<and>
      users (fst (signup_old e s req)) = users s @ [newUser])"
proof (intro conjI allI impI)
  fix newUser
  assume h: "findOne_email (users s) (sb_email (body req)) = None \<and>
      user_save e (users s) (new_user (next_id s) (body req)) = Inr newUser \<and>
      jwt_verify e (jwt_sign e \<lparr>p_id = uid newUser, p_role = u_role newUser\<rparr>) =
        Some \<lparr>p_id = uid newUser, p_role = u_role newUser\<rparr>"
  let ?p = "\<lparr>p_id = uid newUser, p_role = u_role newUser\<rparr>"
  have r: "signup e s req =
           (s\<lparr>users := users s @ [newUser], next_id := Suc (next_id s)\<rparr>,
            reply 201 (SignupJson ''User created successfully'' newUser (jwt_sign e ?p)))"
    using h by (intro signup_issues_token) simp_all
  show "\<exists>token p.
         snd (signup e s req) =
           reply 201 (SignupJson ''User created successfully'' newUser token) \<and>
         response_token (snd (signup e s req)) = Some token \<and>
         jwt_verify e token = Some p \<and>
         p_id p = uid newUser \<and>
         p_role p = u_role newUser \<and>
         users (fst (signup e s req)) = users s @ [newUser]"
    using h unfolding r
    by (intro exI [of _ "jwt_sign e ?p"] exI [of _ ?p])
       (simp add: response_token_def reply_def)
next
  fix newUser
  assume h: "findOne_email (users s) (sb_email (body req)) = None \<and>
      user_save e (users s) (new_user_old (next_id s) (body req)) = Inr newUser"
  have r: "signup_old e s req =
           (s\<lparr>users := users s @ [newUser], next_id := Suc (next_id s)\<rparr>,
            reply 201 (SignupOldJson ''User created successfully'' newUser))"
    using h by (intro signup_old_no_token) simp_all
  show "snd (signup_old e s req) =
          reply 201 (SignupOldJson ''User created successfully'' newUser)"
    unfolding r by simp
  show "response_token (snd (signup_old e s req)) = None"
    unfolding r by (simp add: response_token_def reply_def)
  show "users (fst (signup_old e s req)) = users s @ [newUser]"
    unfolding r by simp
qed

theorem signup_token_by_variant_witness:
  "findOne_email (users empty_store) (sb_email (body sc_signup)) = None \<and>
   user_save fx_env (users empty_store) (new_user (next_id empty_store) (body sc_signup)) =
     Inr alice \<and>
   jwt_verify fx_env (jwt_sign fx_env \<lparr>p_id = uid alice, p_role = u_role alice\<rparr>) =
     Some \<lparr>p_id = uid alice, p_role = u_role alice\<rparr> \<and>
   (\<exists>token p.
      snd (signup fx_env empty_store sc_signup) =
        reply 201 (SignupJson ''User created successfully'' alice token) \<and>
      response_token (snd (signup fx_env empty_store sc_signup)) = Some token \<and>
      jwt_verify fx_env token = Some p \<and>
      p_id p = uid alice \<and>
      p_role p = u_role alice \<and>
      users (fst (signup fx_env empty_store sc_signup)) = users empty_store @ [alice]) \<and>
   user_save fx_env (users empty_store)
     (new_user_old (next_id empty_store) (body sc_signup)) = Inr alice \<and>
   snd (signup_old fx_env empty_store sc_signup) =
     reply 201 (SignupOldJson ''User created successfully'' alice) \<and>
   response_token (snd (signup_old fx_env empty_store sc_signup)) = None \<and>
   users (fst (signup_old fx_env empty_store sc_signup)) = users empty_store @ [alice]"
proof -
  note h1 = sc_signup_unique
  have h2: "user_save fx_env (users empty_store)
              (new_user (next_id empty_store) (body sc_signup)) = Inr alice"
    by (simp add: fx_env_def fx_save_def empty_store_def new_user_def sc_signup_def
        anonymous_def role_or_user_def alice_def)
  have h3: "jwt_verify fx_env (jwt_sign fx_env \<lparr>p_id = uid alice, p_role = u_role alice\<rparr>) =
              Some \<lparr>p_id = uid alice, p_role = u_role alice\<rparr>"
    by (simp add: fx_env_def fx_sign_def fx_verify_def alice_def)
  note h4 = sc_signup_old_save
  note T = signup_token_by_variant [of empty_store sc_signup fx_env]
  note A = T [THEN conjunct1, THEN spec, THEN mp, OF conjI [OF h1 conjI [OF h2 h3]]]
  note B = T [THEN conjunct2, THEN spec, THEN mp, OF conjI [OF h1 h4]]
  from A B h1 h2 h3 h4 show ?thesis by blast
qed

section \<open>The catalog scenario\<close>

text \<open>The admin's token passes the gate wherever the two users are registered.\<close>

lemma admin_admitted:
  "users s = [alice, root] \<Longrightarrow> ''x.admin'' \<notin> tokenBlacklist s \<Longrightarrow>
   admitted fx_env s (bearer ''x.admin'' b i) root"
  unfolding admitted_def
  by (simp add: authenticateToken_def header_token_bearer falsy_def isBlacklisted_def
      fx_env_def fx_verify_def findById_def alice_def root_def)

lemma root_role: "u_role root = ''admin''"
  by (simp add: root_def)

lemma as_admin:
  "users s = [alice, root] \<Longrightarrow> tokenBlacklist s = {} \<Longrightarrow>
   with_admin fx_env h s (bearer ''x.admin'' b i) =
     h s ((bearer ''x.admin'' b i)\<lparr>req_user := Some root\<rparr>)"
  by (rule with_admin_admitted [OF admin_admitted root_role]) simp_all

lemma as_admin_auth:
  "users s = [alice, root] \<Longrightarrow> tokenBlacklist s = {} \<Longrightarrow>
   with_auth fx_env h s (bearer ''x.admin'' b i) =
     h s ((bearer ''x.admin'' b i)\<lparr>req_user := Some root\<rparr>)"
  by (rule with_auth_admitted [OF admin_admitted]) simp_all

lemma admin_store_gate:
  "users admin_store = [alice, root]" "tokenBlacklist admin_store = {}"
  by (simp_all add: admin_store_def empty_store_def)

lemma school_store_gate:
  "users school_store = [alice, root]" "tokenBlacklist school_store = {}"
  by (simp_all add: school_store_def admin_store_def empty_store_def)

text \<open>The states of the catalog scenario, request by request.\<close>

lemma school_1_eq:
  "school_1 = school_store\<lparr>lessons := [3 \<mapsto> \<lparr>l_title = ''L1'', l_description = ''one'',
       l_courseId = 2, l_topics = [], l_content = None\<rparr>], next_id := 4\<rparr>"
  unfolding school_1_def post_lessons_def as_admin [OF school_store_gate]
  by (simp add: createLesson_def new_lesson_def lesson_one_def bearer_def school_store_def
      admin_store_def empty_store_def)

lemma school_1_gate:
  "users school_1 = [alice, root]" "tokenBlacklist school_1 = {}"
  by (simp_all add: school_1_eq school_store_gate)

lemma school_2_eq:
  "school_2 = school_store\<lparr>lessons :=
       [3 \<mapsto> \<lparr>l_title = ''L1'', l_description = ''one'', l_courseId = 2, l_topics = [],
              l_content = None\<rparr>,
        4 \<mapsto> \<lparr>l_title = ''L2'', l_description = ''two'', l_courseId = 2, l_topics = [],
              l_content = None\<rparr>], next_id := 5\<rparr>"
  unfolding school_2_def post_lessons_def as_admin [OF school_1_gate]
  by (simp add: createLesson_def new_lesson_def lesson_two_def bearer_def school_1_eq)

lemma school_2_gate:
  "users school_2 = [alice, root]" "tokenBlacklist school_2 = {}"
  by (simp_all add: school_2_eq school_store_gate)

lemma school_3_eq:
  "school_3 = school_store\<lparr>lessons :=
       [3 \<mapsto> \<lparr>l_title = ''L1'', l_description = ''one'', l_courseId = 2, l_topics = [],
              l_content = None\<rparr>,
        4 \<mapsto> \<lparr>l_title = ''L2'', l_description = ''two'', l_courseId = 2, l_topics = [5],
              l_content = None\<rparr>],
      topics := [5 \<mapsto> \<lparr>t_title = ''T'', t_description = ''new'', t_lessonId = 4,
              t_image = None\<rparr>], next_id := 6\<rparr>"
  unfolding school_3_def post_admin_topics_def as_admin [OF school_2_gate]
  by (simp add: createTopic_def new_topic_def topic_new_def bearer_def school_2_eq
      lesson_valid_def Let_def school_store_def admin_store_def empty_store_def)

lemma school_3_gate:
  "users school_3 = [alice, root]" "tokenBlacklist school_3 = {}"
  by (simp_all add: school_3_eq school_store_gate)

lemma school_4_eq:
  "school_4 = school_store\<lparr>lessons :=
       [3 \<mapsto> \<lparr>l_title = ''L1'', l_description = ''one'', l_courseId = 2, l_topics = [],
              l_content = None\<rparr>,
        4 \<mapsto> \<lparr>l_title = ''L2'', l_description = ''two'', l_courseId = 2, l_topics = [5],
              l_content = None\<rparr>],
      topics := [5 \<mapsto> \<lparr>t_title = ''T'', t_description = ''moved'', t_lessonId = 3,
              t_image = None\<rparr>], next_id := 6\<rparr>"
  unfolding school_4_def put_admin_topics_id_def as_admin [OF school_3_gate]
  by (simp add: updateTopic_def topic_moved_def bearer_def school_3_eq Let_def)

lemma school_4_gate:
  "users school_4 = [alice, root]" "tokenBlacklist school_4 = {}"
  by (simp_all add: school_4_eq school_store_gate)

lemma school_5_gate:
  "users school_5 = [alice, root]" "tokenBlacklist school_5 = {}"
  unfolding school_5_def delete_lessons_id_def as_admin [OF school_4_gate]
  by (simp_all add: delete_lesson_handler_def bearer_def school_4_eq school_store_gate)

section \<open>Deleting a lesson\<close>

text \<open>
  C3, as stated, fails. In the catalog scenario topic 5 has \<open>lessonId\<close> 3 and lesson 3
  does not list it (the topic was created under lesson 4 and moved by an update). The
  admin deletes lesson 3: status 200, the lesson is gone, and fetching topic 5 still
  answers 200 with the topic.
\<close>

theorem delete_lesson_leaves_unlisted_topic:
  "lessons school_4 3 = Some \<lparr>l_title = ''L1'', l_description = ''one'', l_courseId = 2,
      l_topics = [], l_content = None\<rparr> \<and>
   topics school_4 5 = Some \<lparr>t_title = ''T'', t_description = ''moved'', t_lessonId = 3,
      t_image = None\<rparr> \<and>
   delete_lessons_id fx_env school_4 (bearer ''x.admin'' () (Oid 3)) =
     (school_5, reply 200 (Message ''Lesson deleted successfully'')) \<and>
   lessons school_5 3 = None \<and>
   snd (get_topics_id fx_env school_5 (bearer ''x.admin'' () (Oid 5))) =
     reply 200 (TopicJson 5 \<lparr>t_title = ''T'', t_description = ''moved'', t_lessonId = 3,
       t_image = None\<rparr>)"
proof -
  have l: "lessons school_4 3 = Some \<lparr>l_title = ''L1'', l_description = ''one'',
      l_courseId = 2, l_topics = [], l_content = None\<rparr>"
    by (simp add: school_4_eq)
  have t: "topics school_4 5 = Some \<lparr>t_title = ''T'', t_description = ''moved'',
      t_lessonId = 3, t_image = None\<rparr>"
    by (simp add: school_4_eq)
  have d: "snd (delete_lessons_id fx_env school_4 (bearer ''x.admin'' () (Oid 3))) =
      reply 200 (Message ''Lesson deleted successfully'')"
    unfolding delete_lessons_id_def as_admin [OF school_4_gate]
    by (simp add: delete_lesson_handler_def bearer_def l)
  have l5: "lessons school_5 3 = None"
    unfolding school_5_def delete_lessons_id_def as_admin [OF school_4_gate]
    by (simp add: delete_lesson_handler_def bearer_def l)
  have t5: "topics school_5 5 = Some \<lparr>t_title = ''T'', t_description = ''moved'',
      t_lessonId = 3, t_image = None\<rparr>"
    unfolding school_5_def delete_lessons_id_def as_admin [OF school_4_gate]
    by (simp add: delete_lesson_handler_def bearer_def l t deleteMany_in_def)
  have g: "snd (get_topics_id fx_env school_5 (bearer ''x.admin'' () (Oid 5))) =
     reply 200 (TopicJson 5 \<lparr>t_title = ''T'', t_description = ''moved'', t_lessonId = 3,
       t_image = None\<rparr>)"
    unfolding get_topics_id_def as_admin_auth [OF school_5_gate]
    by (simp add: getTopic_def bearer_def t5)
  show ?thesis
    using l t d l5 g by (simp add: school_5_def prod_eq_iff)
qed

text \<open>
  C3, amended. A successful admin delete of an existing lesson \<open>L\<close> answers 200, removes
  the lesson, and removes every topic whose id is listed in \<open>L\<close>'s \<open>topics\<close> array, so
  that a later fetch-by-id of such a topic answers 404; every topic that the array does
  not list is left as it was, whatever its \<open>lessonId\<close>.
\<close>

theorem delete_lesson_removes_listed_topics:
  assumes adm: "admitted e s req u" and role: "u_role u = ''admin''"
      and id: "params_id req = Oid l" and ex: "lessons s l = Some L"
  shows "snd (delete_lessons_id e s req) = reply 200 (Message ''Lesson deleted successfully'') \<and>
         lessons (fst (delete_lessons_id e s req)) l = None \<and>
         (\<forall>t \<in> set (l_topics L).
            topics (fst (delete_lessons_id e s req)) t = None \<and>
            (\<forall>e' (req' :: 'c request) u'.
               admitted e' (fst (delete_lessons_id e s req)) req' u' \<and> params_id req' = Oid t \<longrightarrow>
               snd (get_topics_id e' (fst (delete_lessons_id e s req)) req') =
                 reply 404 (Error ''Topic not found''))) \<and>
         (\<forall>t. t \<notin> set (l_topics L) \<longrightarrow>
            topics (fst (delete_lessons_id e s req)) t = topics s t)"
proof -
  have r: "delete_lessons_id e s req =
      (s\<lparr>lessons := (lessons s)(l := None), topics := deleteMany_in (l_topics L) (topics s)\<rparr>,
       reply 200 (Message ''Lesson deleted successfully''))"
    unfolding delete_lessons_id_def with_admin_admitted [OF adm role]
    by (simp add: delete_lesson_handler_def id ex)
  show ?thesis
    unfolding r
    by (auto simp: deleteMany_in_def get_topics_id_def with_auth_admitted getTopic_def)
qed

theorem delete_lesson_removes_listed_topics_witness:
  "admitted fx_env school_3 (bearer ''x.admin'' () (Oid 4)) root \<and>
   u_role root = ''admin'' \<and>
   lessons school_3 4 = Some \<lparr>l_title = ''L2'', l_description = ''two'', l_courseId = 2,
      l_topics = [5], l_content = None\<rparr> \<and>
   topics school_3 5 = Some \<lparr>t_title = ''T'', t_description = ''new'', t_lessonId = 4,
      t_image = None\<rparr> \<and>
   snd (delete_lessons_id fx_env school_3 (bearer ''x.admin'' () (Oid 4))) =
     reply 200 (Message ''Lesson deleted successfully'') \<and>
   topics (fst (delete_lessons_id fx_env school_3 (bearer ''x.admin'' () (Oid 4)))) 5 = None \<and>
   snd (get_topics_id fx_env
          (fst (delete_lessons_id fx_env school_3 (bearer ''x.admin'' () (Oid 4))))
          (bearer ''x.admin'' () (Oid 5))) = reply 404 (Error ''Topic not found'')"
proof -
  let ?req = "bearer ''x.admin'' () (Oid 4) :: unit request"
  let ?L = "\<lparr>l_title = ''L2'', l_description = ''two'', l_courseId = 2,
      l_topics = [5], l_content = None\<rparr>"
  let ?s' = "fst (delete_lessons_id fx_env school_3 ?req)"
  have a: "admitted fx_env school_3 ?req root"
    by (rule admin_admitted) (simp_all add: school_3_gate)
  have i: "params_id ?req = Oid 4" by (simp add: bearer_def)
  have l: "lessons school_3 4 = Some ?L" by (simp add: school_3_eq)
  have t: "topics school_3 5 = Some \<lparr>t_title = ''T'', t_description = ''new'',
      t_lessonId = 4, t_image = None\<rparr>" by (simp add: school_3_eq)
  note T = delete_lesson_removes_listed_topics [OF a root_role i l]
  have g': "users ?s' = [alice, root]" "tokenBlacklist ?s' = {}"
    unfolding delete_lessons_id_def as_admin [OF school_3_gate]
    by (simp_all add: delete_lesson_handler_def bearer_def l school_3_gate)
  have a': "admitted fx_env ?s' (bearer ''x.admin'' () (Oid 5) :: unit request) root"
    by (rule admin_admitted) (simp_all add: g')
  have i': "params_id (bearer ''x.admin'' () (Oid 5) :: unit request) = Oid 5"
    by (simp add: bearer_def)
  have five: "5 \<in> set (l_topics ?L)" by simp
  note T3 = T [THEN conjunct2, THEN conjunct2, THEN conjunct1, THEN bspec, OF five]
  have "topics ?s' 5 = None"
    by (rule T3 [THEN conjunct1])
  moreover
  have "snd (get_topics_id fx_env ?s' (bearer ''x.admin'' () (Oid 5))) =
          reply 404 (Error ''Topic not found'')"
    by (rule T3 [THEN conjunct2, rule_format, OF conjI, OF a' i'])
  moreover have "snd (delete_lessons_id fx_env school_3 ?req) =
     reply 200 (Message ''Lesson deleted successfully'')"
    by (rule T [THEN conjunct1])
  ultimately show ?thesis using a root_role l t by simp
qed

section \<open>Creating and deleting a topic\<close>

text \<open>
  \<open>POST /admin/topics\<close> saves the topic before it looks the lesson up: with a
  well-formed \<open>lessonId\<close> that names no lesson the answer is 404 and the topic is in
  the store; with an absent or malformed \<open>lessonId\<close> the answer is 400 and nothing is
  stored.
\<close>

lemma createTopic_missing_lesson:
  assumes "new_topic (body req) (file_path req) = Inr t" and "lessons s (t_lessonId t) = None"
  shows "createTopic s req =
           (s\<lparr>topics := (topics s)(next_id s \<mapsto> t), next_id := Suc (next_id s)\<rparr>,
            reply 404 (Error ''Lesson not found''))"
  using assms by (simp add: createTopic_def Let_def)

lemma createTopic_invalid:
  assumes "new_topic (body req) (file_path req) = Inl err"
  shows "createTopic s req = (s, reply 400 (ErrorOf err))"
  using assms by (simp add: createTopic_def)

lemma orphan_store_eq:
  "orphan_store =
     admin_store\<lparr>topics := [2 \<mapsto> \<lparr>t_title = ''T'', t_description = ''orphan'',
        t_lessonId = 7, t_image = None\<rparr>], next_id := 3\<rparr>"
  unfolding orphan_store_def post_admin_topics_def as_admin [OF admin_store_gate]
  by (simp add: createTopic_def new_topic_def topic_orphan_def bearer_def Let_def
      admin_store_def empty_store_def)

lemma orphan_store_gate:
  "users orphan_store = [alice, root]" "tokenBlacklist orphan_store = {}"
  by (simp_all add: orphan_store_eq admin_store_gate)

text \<open>
  C4. On a store with no lesson, the admin posts a topic with \<open>lessonId\<close> 7. The answer
  is 404 "Lesson not found", as the claim says; but the store has changed: topic 2 now
  exists and a fetch-by-id answers 200 with it, where the claim says that no Topic
  record is created.
\<close>

theorem create_topic_missing_lesson_persists:
  "lessons admin_store 7 = None \<and>
   topics admin_store 2 = None \<and>
   post_admin_topics fx_env admin_store (bearer ''x.admin'' topic_orphan Malformed) =
     (orphan_store, reply 404 (Error ''Lesson not found'')) \<and>
   topics orphan_store 2 =
     Some \<lparr>t_title = ''T'', t_description = ''orphan'', t_lessonId = 7, t_image = None\<rparr> \<and>
   snd (get_topics_id fx_env orphan_store (bearer ''x.admin'' () (Oid 2))) =
     reply 200 (TopicJson 2 \<lparr>t_title = ''T'', t_description = ''orphan'', t_lessonId = 7,
       t_image = None\<rparr>)"
proof -
  have r: "snd (post_admin_topics fx_env admin_store (bearer ''x.admin'' topic_orphan Malformed)) =
      reply 404 (Error ''Lesson not found'')"
    unfolding post_admin_topics_def as_admin [OF admin_store_gate]
    by (simp add: createTopic_def new_topic_def topic_orphan_def bearer_def Let_def
        admin_store_def empty_store_def)
  have t: "topics orphan_store 2 =
     Some \<lparr>t_title = ''T'', t_description = ''orphan'', t_lessonId = 7, t_image = None\<rparr>"
    by (simp add: orphan_store_eq)
  have g: "snd (get_topics_id fx_env orphan_store (bearer ''x.admin'' () (Oid 2))) =
     reply 200 (TopicJson 2 \<lparr>t_title = ''T'', t_description = ''orphan'', t_lessonId = 7,
       t_image = None\<rparr>)"
    unfolding get_topics_id_def as_admin_auth [OF orphan_store_gate]
    by (simp add: getTopic_def bearer_def t)
  show ?thesis
    using r t g by (simp add: orphan_store_def prod_eq_iff admin_store_def empty_store_def)
qed

text \<open>
  C9. An admin delete of an existing topic whose \<open>lessonId\<close> names no existing lesson
  answers 200 "Topic deleted successfully"; the topic record is removed and nothing
  else changes: the removal of the reference on the lesson's side is skipped without
  an error.
\<close>

theorem delete_topic_missing_lesson:
  assumes adm: "admitted e s req u" and role: "u_role u = ''admin''"
      and id: "params_id req = Oid t" and ex: "topics s t = Some T"
      and nl: "lessons s (t_lessonId T) = None"
  shows "delete_admin_topics_id e s req =
           (s\<lparr>topics := (topics s)(t := None)\<rparr>,
            reply 200 (Message ''Topic deleted successfully''))"
  unfolding delete_admin_topics_id_def with_admin_admitted [OF adm role]
  by (simp add: deleteTopic_def id ex nl)

theorem delete_topic_missing_lesson_witness:
  "admitted fx_env orphan_store (bearer ''x.admin'' () (Oid 2)) root \<and>
   u_role root = ''admin'' \<and>
   topics orphan_store 2 =
     Some \<lparr>t_title = ''T'', t_description = ''orphan'', t_lessonId = 7, t_image = None\<rparr> \<and>
   lessons orphan_store 7 = None \<and>
   delete_admin_topics_id fx_env orphan_store (bearer ''x.admin'' () (Oid 2)) =
     (orphan_store\<lparr>topics := (topics orphan_store)(2 := None)\<rparr>,
      reply 200 (Message ''Topic deleted successfully'')) \<and>
   topics (fst (delete_admin_topics_id fx_env orphan_store (bearer ''x.admin'' () (Oid 2)))) 2 =
     None"
proof -
  let ?req = "bearer ''x.admin'' () (Oid 2) :: unit request"
  let ?T = "\<lparr>t_title = ''T'', t_description = ''orphan'', t_lessonId = 7, t_image = None\<rparr>"
  have a: "admitted fx_env orphan_store ?req root"
    by (rule admin_admitted) (simp_all add: orphan_store_gate)
  have i: "params_id ?req = Oid 2" by (simp add: bearer_def)
  have t: "topics orphan_store 2 = Some ?T" by (simp add: orphan_store_eq)
  have l: "lessons orphan_store 7 = None"
    by (simp add: orphan_store_eq admin_store_def empty_store_def)
  have l': "lessons orphan_store (t_lessonId ?T) = None" using l by simp
  note T = delete_topic_missing_lesson [OF a root_role i t l']
  show ?thesis using a root_role t l T by simp
qed

section \<open>Deleting and fetching a course\<close>

text \<open>
  C8. A successful admin delete of an existing course removes the course record only:
  the answer is 200, the course is gone, and the lessons and the topics of the store
  (those of the deleted course among them) are exactly as before.
\<close>

theorem delete_course_keeps_lessons_and_topics:
  assumes adm: "admitted e s req u" and role: "u_role u = ''admin''"
      and id: "params_id req = Oid c" and ex: "courses s c = Some C"
  shows "delete_admin_courses_id e s req =
           (s\<lparr>courses := (courses s)(c := None)\<rparr>,
            reply 200 (Message ''Course deleted successfully'')) \<and>
         courses (fst (delete_admin_courses_id e s req)) c = None \<and>
         lessons (fst (delete_admin_courses_id e s req)) = lessons s \<and>
         topics (fst (delete_admin_courses_id e s req)) = topics s"
  unfolding delete_admin_courses_id_def with_admin_admitted [OF adm role]
  by (simp add: deleteCourse_def id ex)

theorem delete_course_keeps_lessons_and_topics_witness:
  "admitted fx_env school_3 (bearer ''x.admin'' () (Oid 2)) root \<and>
   u_role root = ''admin'' \<and>
   courses school_3 2 = Some \<lparr>c_title = ''Algebra'', c_description = ''Groups'',
      c_instructor = ''N'', c_price = 10, c_image = None\<rparr> \<and>
   snd (delete_admin_courses_id fx_env school_3 (bearer ''x.admin'' () (Oid 2))) =
     reply 200 (Message ''Course deleted successfully'') \<and>
   courses (fst (delete_admin_courses_id fx_env school_3 (bearer ''x.admin'' () (Oid 2)))) 2 =
     None \<and>
   lessons (fst (delete_admin_courses_id fx_env school_3 (bearer ''x.admin'' () (Oid 2)))) 4 =
     Some \<lparr>l_title = ''L2'', l_description = ''two'', l_courseId = 2, l_topics = [5],
       l_content = None\<rparr> \<and>
   topics (fst (delete_admin_courses_id fx_env school_3 (bearer ''x.admin'' () (Oid 2)))) 5 =
     Some \<lparr>t_title = ''T'', t_description = ''new'', t_lessonId = 4, t_image = None\<rparr>"
proof -
  let ?req = "bearer ''x.admin'' () (Oid 2) :: unit request"
  have a: "admitted fx_env school_3 ?req root"
    by (rule admin_admitted) (simp_all add: school_3_gate)
  have i: "params_id ?req = Oid 2" by (simp add: bearer_def)
  have c: "courses school_3 2 = Some \<lparr>c_title = ''Algebra'', c_description = ''Groups'',
      c_instructor = ''N'', c_price = 10, c_image = None\<rparr>"
    by (simp add: school_3_eq school_store_def)
  have l: "lessons school_3 4 = Some \<lparr>l_title = ''L2'', l_description = ''two'',
      l_courseId = 2, l_topics = [5], l_content = None\<rparr>"
    by (simp add: school_3_eq)
  have t: "topics school_3 5 = Some \<lparr>t_title = ''T'', t_description = ''new'',
      t_lessonId = 4, t_image = None\<rparr>"
    by (simp add: school_3_eq)
  note T = delete_course_keeps_lessons_and_topics [OF a root_role i c]
  show ?thesis using a root_role c l t T by simp
qed

text \<open>\<open>GET /courses/:id\<close> with a well-formed id that names no course answers 200 with \<open>null\<close>.\<close>

lemma get_course_missing:
  assumes "admitted e s req u" and "params_id req = Oid c" and "courses s c = None"
  shows "get_courses_id e s req = (s, reply 200 (CourseJson None))"
  unfolding get_courses_id_def with_auth_admitted [OF assms(1)]
  using assms(2,3) by (simp add: getCourse_def)

text \<open>
  C7. On a store without a course 7, the authenticated request \<open>GET /courses/7\<close> is
  answered with status 200 and the body \<open>null\<close>, where the claim says 404.
\<close>

theorem get_course_missing_answers_200:
  "courses admin_store 7 = None \<and>
   get_courses_id fx_env admin_store (bearer ''x.admin'' () (Oid 7)) =
     (admin_store, reply 200 (CourseJson None)) \<and>
   status (snd (get_courses_id fx_env admin_store (bearer ''x.admin'' () (Oid 7)))) = 200"
proof -
  have c: "courses admin_store 7 = None"
    by (simp add: admin_store_def empty_store_def)
  have a: "admitted fx_env admin_store (bearer ''x.admin'' () (Oid 7) :: unit request) root"
    by (rule admin_admitted) (simp_all add: admin_store_gate)
  have "get_courses_id fx_env admin_store (bearer ''x.admin'' () (Oid 7)) =
     (admin_store, reply 200 (CourseJson None))"
    by (rule get_course_missing [OF a _ c]) (simp add: bearer_def)
  then show ?thesis using c by (simp add: reply_def)
qed

section \<open>Creating a lesson\<close>








end
